theory Spec2Isabelle
  imports Main
begin

section \<open>Clock and signed assertions\<close>

text \<open>
  The authentication and security-event core of the dashboard backend: the Redis-backed
  rate limiter (\<^verbatim>\<open>middleware/rateLimiter.js\<close>), the session manager
  (\<^verbatim>\<open>utils/sessionManager.js\<close>), the socket handshake
  (\<^verbatim>\<open>middleware/socketAuth.js\<close>), the audit logger
  (\<^verbatim>\<open>utils/auditLogger.js\<close>) and the two login handlers.

  Time is the wall clock in whole seconds. Every operation takes the instant \<open>now\<close>
  at which it runs. The libraries the code calls (jsonwebtoken, the Redis client, the
  PostgreSQL pool, bcrypt) are not part of the repository; they are modelled by what the
  commands the code names do.
\<close>

type_synonym seconds = nat

text \<open>
  A bearer assertion is modelled symbolically: the payload the code signs, the issue and
  expiry instants jsonwebtoken embeds, and the secret it was signed with. A token that was
  not produced under one of the two server secrets carries \<open>ForeignKey\<close>.
\<close>

datatype secret = JWT_SECRET | JWT_REFRESH_SECRET | ForeignKey string

record jwt =
  jwt_userId :: nat
  jwt_role :: "string option"
  jwt_iat :: seconds
  jwt_exp :: seconds
  jwt_key :: secret

datatype jwt_error = JsonWebTokenError | TokenExpiredError

text \<open>\<^verbatim>\<open>jwt.sign(payload, secret, { expiresIn })\<close>: \<open>exp = iat + expiresIn\<close>.\<close>

definition jwt_sign :: "nat \<Rightarrow> string option \<Rightarrow> secret \<Rightarrow> seconds \<Rightarrow> seconds \<Rightarrow> jwt" where
  "jwt_sign uid rl key expiresIn now =
     \<lparr>jwt_userId = uid, jwt_role = rl, jwt_iat = now, jwt_exp = now + expiresIn, jwt_key = key\<rparr>"

text \<open>
  \<^verbatim>\<open>jwt.verify(token, secret)\<close> throws on a signature made with another secret and
  throws once the clock has reached \<open>exp\<close>; otherwise it returns the decoded payload.
\<close>

definition jwt_verify :: "jwt \<Rightarrow> secret \<Rightarrow> seconds \<Rightarrow> jwt_error + jwt" where
  "jwt_verify t key now =
     (if jwt_key t \<noteq> key then Inl JsonWebTokenError
      else if jwt_exp t \<le> now then Inl TokenExpiredError
      else Inr t)"

definition access_ttl :: seconds where
  "access_ttl = 15 * 60"

definition refresh_ttl :: seconds where
  "refresh_ttl = 7 * 24 * 60 * 60"

section \<open>The Redis store\<close>

text \<open>
  The keyspace is kept in typed views, one per key family the code uses:
  rate-limit counters (\<^verbatim>\<open>rl:...\<close>, written only by \<^verbatim>\<open>SET key 1\<close> and
  \<^verbatim>\<open>INCR\<close>, so always integers), session records
  (\<^verbatim>\<open>session:<token>\<close>), lists and publish/subscribe channels. An entry carries
  the instant at which it expires, if any. Every command the code issues is appended to
  \<open>cmd_log\<close> with the key it addresses and whether it succeeded; \<open>failing\<close> says which
  commands currently raise (an unreachable store makes all of them raise). A command that
  raises has no effect on the data.
\<close>

datatype redis_cmd = GET | SET | INCR | DEL | LPUSH | LTRIM | PUBLISH

datatype redis_error = ReplyError redis_cmd

datatype 'a entry = Entry (e_val: 'a) (e_expires: "seconds option")

type_synonym details = "(string \<times> string) list"

record profile =
  p_email :: string
  p_firstName :: string
  p_lastName :: string
  p_mfaEnabled :: bool

record session =
  s_userId :: nat
  s_role :: "string option"
  s_extra :: "profile option"

record notification =
  n_id :: nat
  n_action :: string
  n_userId :: "nat option"
  n_details :: details
  n_timestamp :: seconds

datatype rkey = CounterKey string | SessionKey jwt | ListKey string | Channel string

record redis =
  counters :: "string \<rightharpoonup> int entry"
  sessions :: "jwt \<rightharpoonup> session entry"
  lists :: "string \<Rightarrow> notification list"
  published :: "(string \<times> notification) list"
  failing :: "redis_cmd \<Rightarrow> bool"
  cmd_log :: "(redis_cmd \<times> rkey \<times> bool) list"

definition issue :: "redis_cmd \<Rightarrow> rkey \<Rightarrow> bool \<Rightarrow> redis \<Rightarrow> redis" where
  "issue c k ok r = r\<lparr>cmd_log := cmd_log r @ [(c, k, ok)]\<rparr>"

definition live :: "seconds \<Rightarrow> 'a entry \<Rightarrow> bool" where
  "live now e = (case e_expires e of None \<Rightarrow> True | Some t \<Rightarrow> now < t)"

definition lookup :: "seconds \<Rightarrow> ('k \<rightharpoonup> 'a entry) \<Rightarrow> 'k \<Rightarrow> 'a option" where
  "lookup now m k =
     (case m k of
        None \<Rightarrow> None
      | Some e \<Rightarrow> if live now e then Some (e_val e) else None)"

text \<open>What \<^verbatim>\<open>TTL key\<close> would answer for a live counter with an expiry.\<close>

definition remaining_ttl :: "seconds \<Rightarrow> redis \<Rightarrow> string \<Rightarrow> seconds option" where
  "remaining_ttl now r k =
     (case counters r k of
        None \<Rightarrow> None
      | Some e \<Rightarrow>
          (case e_expires e of
             None \<Rightarrow> None
           | Some t \<Rightarrow> if now < t then Some (t - now) else None))"

definition redis_get_counter :: "seconds \<Rightarrow> string \<Rightarrow> redis \<Rightarrow> (redis_error + int option) \<times> redis" where
  "redis_get_counter now k r =
     (if failing r GET then (Inl (ReplyError GET), issue GET (CounterKey k) False r)
      else (Inr (lookup now (counters r) k), issue GET (CounterKey k) True r))"

text \<open>
  The code passes the expiry of a \<^verbatim>\<open>SET\<close> to the client in two ways: as the
  arguments \<^verbatim>\<open>"EX", n\<close> and as an options object \<^verbatim>\<open>{ EX: n }\<close>. The client is
  ioredis (\<^verbatim>\<open>server.js\<close>), which has no options-object form of \<^verbatim>\<open>SET\<close>: it
  sends the object as the string \<^verbatim>\<open>[object Object]\<close>, and Redis answers with a
  syntax error. With \<^verbatim>\<open>"EX", n\<close> the command is \<^verbatim>\<open>SET key value EX n\<close>, which
  Redis rejects only for an expiry of zero. \<open>set_expiry\<close> gives the expiry Redis applies,
  or \<open>None\<close> when it rejects the command.
\<close>

datatype set_args = ExArgs nat | ExObject nat

definition set_expiry :: "set_args \<Rightarrow> nat option" where
  "set_expiry a =
     (case a of
        ExArgs n \<Rightarrow> if n = 0 then None else Some n
      | ExObject n \<Rightarrow> None)"

definition redis_set_counter ::
  "seconds \<Rightarrow> string \<Rightarrow> int \<Rightarrow> set_args \<Rightarrow> redis \<Rightarrow> (redis_error + unit) \<times> redis" where
  "redis_set_counter now k v a r =
     (case (if failing r SET then None else set_expiry a) of
        None \<Rightarrow> (Inl (ReplyError SET), issue SET (CounterKey k) False r)
      | Some ex \<Rightarrow>
          (Inr (),
           issue SET (CounterKey k) True
             (r\<lparr>counters := (counters r)(k \<mapsto> Entry v (Some (now + ex)))\<rparr>)))"

text \<open>
  \<^verbatim>\<open>INCR key\<close> adds one and keeps the expiry; on an absent (or expired) key it creates
  the value 1 with no expiry.
\<close>

definition redis_incr :: "seconds \<Rightarrow> string \<Rightarrow> redis \<Rightarrow> (redis_error + int) \<times> redis" where
  "redis_incr now k r =
     (if failing r INCR then (Inl (ReplyError INCR), issue INCR (CounterKey k) False r)
      else
        (case counters r k of
           None \<Rightarrow>
             (Inr 1, issue INCR (CounterKey k) True
                       (r\<lparr>counters := (counters r)(k \<mapsto> Entry 1 None)\<rparr>))
         | Some e \<Rightarrow>
             if live now e
             then (Inr (e_val e + 1),
                   issue INCR (CounterKey k) True
                     (r\<lparr>counters := (counters r)(k \<mapsto> Entry (e_val e + 1) (e_expires e))\<rparr>))
             else (Inr 1, issue INCR (CounterKey k) True
                            (r\<lparr>counters := (counters r)(k \<mapsto> Entry 1 None)\<rparr>))))"

definition redis_get_session :: "seconds \<Rightarrow> jwt \<Rightarrow> redis \<Rightarrow> (redis_error + session option) \<times> redis" where
  "redis_get_session now t r =
     (if failing r GET then (Inl (ReplyError GET), issue GET (SessionKey t) False r)
      else (Inr (lookup now (sessions r) t), issue GET (SessionKey t) True r))"

definition redis_set_session ::
  "seconds \<Rightarrow> jwt \<Rightarrow> session \<Rightarrow> set_args \<Rightarrow> redis \<Rightarrow> (redis_error + unit) \<times> redis" where
  "redis_set_session now t v a r =
     (case (if failing r SET then None else set_expiry a) of
        None \<Rightarrow> (Inl (ReplyError SET), issue SET (SessionKey t) False r)
      | Some ex \<Rightarrow>
          (Inr (),
           issue SET (SessionKey t) True
             (r\<lparr>sessions := (sessions r)(t \<mapsto> Entry v (Some (now + ex)))\<rparr>)))"

definition redis_del_session :: "jwt \<Rightarrow> redis \<Rightarrow> (redis_error + unit) \<times> redis" where
  "redis_del_session t r =
     (if failing r DEL then (Inl (ReplyError DEL), issue DEL (SessionKey t) False r)
      else (Inr (), issue DEL (SessionKey t) True (r\<lparr>sessions := (sessions r)(t := None)\<rparr>)))"

definition redis_lpush :: "string \<Rightarrow> notification \<Rightarrow> redis \<Rightarrow> (redis_error + unit) \<times> redis" where
  "redis_lpush k v r =
     (if failing r LPUSH then (Inl (ReplyError LPUSH), issue LPUSH (ListKey k) False r)
      else (Inr (), issue LPUSH (ListKey k) True (r\<lparr>lists := (lists r)(k := v # lists r k)\<rparr>)))"

text \<open>\<^verbatim>\<open>LTRIM key 0 stop\<close> keeps the elements at indices \<open>0..stop\<close>.\<close>

definition redis_ltrim0 :: "string \<Rightarrow> nat \<Rightarrow> redis \<Rightarrow> (redis_error + unit) \<times> redis" where
  "redis_ltrim0 k stop r =
     (if failing r LTRIM then (Inl (ReplyError LTRIM), issue LTRIM (ListKey k) False r)
      else (Inr (),
            issue LTRIM (ListKey k) True
              (r\<lparr>lists := (lists r)(k := take (Suc stop) (lists r k))\<rparr>)))"

definition redis_publish :: "string \<Rightarrow> notification \<Rightarrow> redis \<Rightarrow> (redis_error + unit) \<times> redis" where
  "redis_publish ch v r =
     (if failing r PUBLISH then (Inl (ReplyError PUBLISH), issue PUBLISH (Channel ch) False r)
      else (Inr (), issue PUBLISH (Channel ch) True (r\<lparr>published := published r @ [(ch, v)]\<rparr>)))"

definition redis_empty :: redis where
  "redis_empty =
     \<lparr>counters = Map.empty, sessions = Map.empty, lists = (\<lambda>k. []), published = [],
      failing = (\<lambda>c. False), cmd_log = []\<rparr>"

section \<open>The rate limiter\<close>

record limiter_options =
  windowMs :: nat
  max_requests :: int
  keyPrefix :: string
  message :: string

text \<open>\<^verbatim>\<open>Math.ceil(windowMs / 1000)\<close>.\<close>

definition ceil_seconds :: "nat \<Rightarrow> nat" where
  "ceil_seconds ms = (ms + 999) div 1000"

text \<open>
  The middleware either calls \<^verbatim>\<open>next()\<close> or answers
  \<^verbatim>\<open>res.status(429).json({ message, retryAfter })\<close>. Its whole body is inside one
  \<^verbatim>\<open>try\<close> whose \<^verbatim>\<open>catch\<close> calls \<^verbatim>\<open>next()\<close>, so there is no third outcome.
\<close>

datatype outcome = Next | Status429 string nat

definition createRateLimiter ::
  "limiter_options \<Rightarrow> seconds \<Rightarrow> string \<Rightarrow> redis \<Rightarrow> outcome \<times> redis" where
  "createRateLimiter opts now ip r =
     (let key = keyPrefix opts @ ip in
      case redis_get_counter now key r of
        (Inl err, r1) \<Rightarrow> (Next, r1)
      | (Inr currentCount, r1) \<Rightarrow>
          (case currentCount of
             Some n \<Rightarrow>
               if n \<ge> max_requests opts
               then (Status429 (message opts) (ceil_seconds (windowMs opts)), r1)
               else (case redis_incr now key r1 of
                       (Inl err, r2) \<Rightarrow> (Next, r2)
                     | (Inr v, r2) \<Rightarrow> (Next, r2))
           | None \<Rightarrow>
               (case redis_set_counter now key 1 (ExObject (ceil_seconds (windowMs opts)))
                       r1 of
                  (Inl err, r2) \<Rightarrow> (Next, r2)
                | (Inr u, r2) \<Rightarrow> (Next, r2))))"

definition loginRateLimiter :: limiter_options where
  "loginRateLimiter =
     \<lparr>windowMs = 5 * 60 * 1000, max_requests = 5, keyPrefix = ''rl:login:'',
      message = ''Too many login attempts, please try again after 5 minutes''\<rparr>"

definition passwordResetRateLimiter :: limiter_options where
  "passwordResetRateLimiter =
     \<lparr>windowMs = 60 * 60 * 1000, max_requests = 3, keyPrefix = ''rl:pwreset:'',
      message = ''Too many password reset attempts, please try again after an hour''\<rparr>"

definition apiRateLimiter :: limiter_options where
  "apiRateLimiter =
     \<lparr>windowMs = 60 * 1000, max_requests = 60, keyPrefix = ''rl:api:'',
      message = ''Too many API requests, please try again later''\<rparr>"

text \<open>
  The manager login route has a limiter of its own, built with express-rate-limit
  (\<^verbatim>\<open>routes/manager-auth.js\<close>); only its window and maximum are recorded here.
\<close>

definition loginLimiter :: limiter_options where
  "loginLimiter =
     \<lparr>windowMs = 15 * 60 * 1000, max_requests = 5, keyPrefix = '''',
      message = ''Too many login attempts from this IP, please try again after 15 minutes''\<rparr>"

text \<open>The commands one invocation of the limiter sends to the store.\<close>

definition commands_issued ::
  "limiter_options \<Rightarrow> seconds \<Rightarrow> string \<Rightarrow> redis \<Rightarrow> (redis_cmd \<times> rkey \<times> bool) list" where
  "commands_issued opts now ip r =
     drop (length (cmd_log r)) (cmd_log (snd (createRateLimiter opts now ip r)))"

text \<open>
  The two halves of one invocation, split at the point where the handler waits for the
  reply to its \<^verbatim>\<open>GET\<close>: what it decides from the value read, and the write it
  then sends. Requests of other clients may run between the two.
\<close>

datatype limiter_decision = ReadFailed | Denied | Proceed "int option"

definition limiter_read ::
  "limiter_options \<Rightarrow> seconds \<Rightarrow> string \<Rightarrow> redis \<Rightarrow> limiter_decision \<times> redis" where
  "limiter_read opts now ip r =
     (case redis_get_counter now (keyPrefix opts @ ip) r of
        (Inl err, r1) \<Rightarrow> (ReadFailed, r1)
      | (Inr currentCount, r1) \<Rightarrow>
          (case currentCount of
             Some n \<Rightarrow> if n \<ge> max_requests opts then (Denied, r1) else (Proceed currentCount, r1)
           | None \<Rightarrow> (Proceed currentCount, r1)))"

definition limiter_write ::
  "limiter_options \<Rightarrow> seconds \<Rightarrow> string \<Rightarrow> int option \<Rightarrow> redis \<Rightarrow> redis" where
  "limiter_write opts now ip currentCount r =
     (case currentCount of
        Some n \<Rightarrow> snd (redis_incr now (keyPrefix opts @ ip) r)
      | None \<Rightarrow>
          snd (redis_set_counter now (keyPrefix opts @ ip) 1
                 (ExObject (ceil_seconds (windowMs opts))) r))"

text \<open>Requests served one after the other, each given as its instant and client address.\<close>

fun run_requests :: "limiter_options \<Rightarrow> (seconds \<times> string) list \<Rightarrow> redis \<Rightarrow> redis" where
  "run_requests opts [] r = r"
| "run_requests opts ((now, ip) # qs) r =
     run_requests opts qs (snd (createRateLimiter opts now ip r))"

text \<open>
  The count stored under a counter key, if any, and what it is for a key to hold no count
  above a maximum.
\<close>

definition stored_count :: "redis \<Rightarrow> string \<Rightarrow> int option" where
  "stored_count r k = map_option e_val (counters r k)"

definition within_max :: "int \<Rightarrow> redis \<Rightarrow> string \<Rightarrow> bool" where
  "within_max m r k = (case counters r k of None \<Rightarrow> True | Some e \<Rightarrow> e_val e \<le> m)"

section \<open>The relational store\<close>

record audit_row =
  a_id :: nat
  a_action :: string
  a_user_id :: "nat option"
  a_details :: details
  a_ip_address :: "string option"

record user_row =
  u_id :: nat
  u_email :: string
  u_password :: string
  u_first_name :: string
  u_last_name :: string
  u_role :: string
  u_mfa_enabled :: bool
  u_is_active :: bool
  u_is_approved :: bool

record refresh_row =
  rt_user_id :: nat
  rt_token :: jwt
  rt_ip_address :: "string option"
  rt_user_agent :: "string option"
  rt_expires_at :: seconds

text \<open>
  \<open>db_failing\<close> says that \<^verbatim>\<open>pool.query\<close> currently throws. \<open>audit_seq\<close> is the
  last value the \<^verbatim>\<open>audit_logs.id\<close> sequence handed out.
\<close>

record db =
  audit_logs :: "audit_row list"
  audit_seq :: nat
  users :: "user_row list"
  refresh_tokens :: "refresh_row list"
  db_failing :: bool

datatype db_error = QueryError

record world =
  pg :: db
  rds :: redis

record audit_args =
  log_action :: string
  log_userId :: "nat option"
  log_details :: details
  log_ip :: "string option"

text \<open>\<^verbatim>\<open>INSERT INTO audit_logs (...) VALUES (...) RETURNING id\<close>.\<close>

definition insert_audit_log :: "audit_args \<Rightarrow> db \<Rightarrow> db_error + (nat \<times> db)" where
  "insert_audit_log a d =
     (if db_failing d then Inl QueryError
      else Inr (Suc (audit_seq d),
                d\<lparr>audit_logs := audit_logs d @
                      [\<lparr>a_id = Suc (audit_seq d), a_action = log_action a,
                        a_user_id = log_userId a, a_details = log_details a,
                        a_ip_address = log_ip a\<rparr>],
                  audit_seq := Suc (audit_seq d)\<rparr>))"

definition select_users :: "(user_row \<Rightarrow> bool) \<Rightarrow> db \<Rightarrow> db_error + user_row list" where
  "select_users cond d = (if db_failing d then Inl QueryError else Inr (filter cond (users d)))"

definition insert_refresh_token :: "refresh_row \<Rightarrow> db \<Rightarrow> db_error + db" where
  "insert_refresh_token row d =
     (if db_failing d then Inl QueryError
      else Inr (d\<lparr>refresh_tokens := refresh_tokens d @ [row]\<rparr>))"

section \<open>The audit logger\<close>

definition significantActions :: "string list" where
  "significantActions =
     [''LOGIN_FAILED'', ''MFA_FAILED'', ''UNAUTHORIZED_ACCESS'', ''USER_ROLE_CHANGED'',
      ''USER_APPROVED'', ''USER_DEACTIVATED'', ''ITEM_REJECTED'', ''SECURITY_ALERT'']"

text \<open>
  \<^verbatim>\<open>createAuditLog\<close> resolves to the new row's id or to \<^verbatim>\<open>null\<close>. The insert, the
  push, the trim and the publish are all inside one \<^verbatim>\<open>try\<close>; its \<^verbatim>\<open>catch\<close>
  logs and returns \<^verbatim>\<open>null\<close>.
\<close>

definition createAuditLog :: "seconds \<Rightarrow> audit_args \<Rightarrow> world \<Rightarrow> nat option \<times> world" where
  "createAuditLog now a w =
     (case insert_audit_log a (pg w) of
        Inl err \<Rightarrow> (None, w)
      | Inr (new_id, pg1) \<Rightarrow>
          (let w1 = w\<lparr>pg := pg1\<rparr>;
               event = \<lparr>n_id = new_id, n_action = log_action a, n_userId = log_userId a,
                        n_details = log_details a, n_timestamp = now\<rparr>
           in if log_action a \<in> set significantActions
              then (case redis_lpush ''admin:notifications'' event (rds w1) of
                      (Inl err, r1) \<Rightarrow> (None, w1\<lparr>rds := r1\<rparr>)
                    | (Inr u1, r1) \<Rightarrow>
                        (case redis_ltrim0 ''admin:notifications'' 99 r1 of
                           (Inl err, r2) \<Rightarrow> (None, w1\<lparr>rds := r2\<rparr>)
                         | (Inr u2, r2) \<Rightarrow>
                             (case redis_publish ''admin:notifications'' event r2 of
                                (Inl err, r3) \<Rightarrow> (None, w1\<lparr>rds := r3\<rparr>)
                              | (Inr u3, r3) \<Rightarrow> (Some new_id, w1\<lparr>rds := r3\<rparr>))))
              else (Some new_id, w1)))"

text \<open>The Recent Significant Events buffer and what has been published so far.\<close>

definition ring_buffer :: "world \<Rightarrow> notification list" where
  "ring_buffer w = lists (rds w) ''admin:notifications''"

definition channel :: "world \<Rightarrow> (string \<times> notification) list" where
  "channel w = published (rds w)"

section \<open>The session manager\<close>

datatype session_error = InvalidRefreshToken

definition createSession ::
  "seconds \<Rightarrow> nat \<Rightarrow> string \<Rightarrow> profile option \<Rightarrow> world \<Rightarrow> (redis_error + jwt \<times> jwt) \<times> world" where
  "createSession now uid rl additionalData w =
     (let accessToken = jwt_sign uid None JWT_SECRET access_ttl now;
          refreshToken = jwt_sign uid None JWT_REFRESH_SECRET refresh_ttl now
      in case redis_set_session now accessToken
                \<lparr>s_userId = uid, s_role = Some rl, s_extra = additionalData\<rparr>
                (ExObject 900) (rds w) of
           (Inl err, r1) \<Rightarrow> (Inl err, w\<lparr>rds := r1\<rparr>)
         | (Inr u, r1) \<Rightarrow> (Inr (accessToken, refreshToken), w\<lparr>rds := r1\<rparr>))"

definition validateSession :: "seconds \<Rightarrow> jwt \<Rightarrow> world \<Rightarrow> session option \<times> world" where
  "validateSession now accessToken w =
     (case redis_get_session now accessToken (rds w) of
        (Inl err, r1) \<Rightarrow> (None, w\<lparr>rds := r1\<rparr>)
      | (Inr sessionData, r1) \<Rightarrow>
          (case sessionData of
             None \<Rightarrow>
               (case jwt_verify accessToken JWT_SECRET now of
                  Inl err \<Rightarrow> (None, w\<lparr>rds := r1\<rparr>)
                | Inr decoded \<Rightarrow>
                    (Some \<lparr>s_userId = jwt_userId decoded, s_role = None, s_extra = None\<rparr>,
                     w\<lparr>rds := r1\<rparr>))
           | Some s \<Rightarrow> (Some s, w\<lparr>rds := r1\<rparr>)))"

definition invalidateSession :: "jwt \<Rightarrow> world \<Rightarrow> (redis_error + unit) \<times> world" where
  "invalidateSession accessToken w =
     (case redis_del_session accessToken (rds w) of (res, r1) \<Rightarrow> (res, w\<lparr>rds := r1\<rparr>))"

text \<open>The \<^verbatim>\<open>userData\<close> argument of \<^verbatim>\<open>refreshSession\<close>.\<close>

record user_data =
  ud_role :: string
  ud_email :: string
  ud_firstName :: string
  ud_lastName :: string
  ud_mfaEnabled :: bool

definition refreshSession ::
  "seconds \<Rightarrow> jwt \<Rightarrow> user_data \<Rightarrow> world \<Rightarrow> (session_error + jwt \<times> jwt) \<times> world" where
  "refreshSession now refreshToken userData w =
     (case jwt_verify refreshToken JWT_REFRESH_SECRET now of
        Inl err \<Rightarrow> (Inl InvalidRefreshToken, w)
      | Inr decoded \<Rightarrow>
          (case createSession now (jwt_userId decoded) (ud_role userData)
                  (Some \<lparr>p_email = ud_email userData, p_firstName = ud_firstName userData,
                          p_lastName = ud_lastName userData,
                          p_mfaEnabled = ud_mfaEnabled userData\<rparr>) w of
             (Inl err, w1) \<Rightarrow> (Inl InvalidRefreshToken, w1)
           | (Inr tokens, w1) \<Rightarrow> (Inr tokens, w1)))"

section \<open>The socket handshake\<close>

record socket =
  handshake_token :: "jwt option"
  socket_id :: string
  handshake_address :: string

record socket_user =
  su_id :: nat
  su_role :: "string option"

text \<open>
  The middleware ends in \<^verbatim>\<open>next()\<close> with \<^verbatim>\<open>socket.user\<close> attached, or in
  \<^verbatim>\<open>next(new Error(msg))\<close>. The audit call is not awaited; its effect is taken at
  the place of the call.
\<close>

datatype socket_outcome = Accept socket_user | Reject string

definition socket_connect_args :: "nat \<Rightarrow> socket \<Rightarrow> audit_args" where
  "socket_connect_args uid sock =
     \<lparr>log_action = ''SOCKET_CONNECT'', log_userId = Some uid,
      log_details = [(''socketId'', socket_id sock), (''ip'', handshake_address sock)],
      log_ip = None\<rparr>"

definition socketAuthMiddleware :: "seconds \<Rightarrow> socket \<Rightarrow> world \<Rightarrow> socket_outcome \<times> world" where
  "socketAuthMiddleware now sock w =
     (case handshake_token sock of
        None \<Rightarrow> (Reject ''Authentication error: No token provided'', w)
      | Some token \<Rightarrow>
          (case redis_get_session now token (rds w) of
             (Inl err, r1) \<Rightarrow> (Reject ''Internal server error'', w\<lparr>rds := r1\<rparr>)
           | (Inr cachedSession, r1) \<Rightarrow>
               (case cachedSession of
                  Some sess \<Rightarrow>
                    (Accept \<lparr>su_id = s_userId sess, su_role = s_role sess\<rparr>,
                     snd (createAuditLog now (socket_connect_args (s_userId sess) sock)
                            (w\<lparr>rds := r1\<rparr>)))
                | None \<Rightarrow>
                    (case jwt_verify token JWT_SECRET now of
                       Inl jwtError \<Rightarrow>
                         (Reject ''Authentication error: Invalid token'', w\<lparr>rds := r1\<rparr>)
                     | Inr decoded \<Rightarrow>
                         (case redis_set_session now token
                                 \<lparr>s_userId = jwt_userId decoded, s_role = jwt_role decoded,
                                  s_extra = None\<rparr> (ExArgs 900) r1 of
                            (Inl jwtError, r2) \<Rightarrow>
                              (Reject ''Authentication error: Invalid token'', w\<lparr>rds := r2\<rparr>)
                          | (Inr u, r2) \<Rightarrow>
                              (Accept \<lparr>su_id = jwt_userId decoded, su_role = jwt_role decoded\<rparr>,
                               snd (createAuditLog now
                                      (socket_connect_args (jwt_userId decoded) sock)
                                      (w\<lparr>rds := r2\<rparr>))))))))"

text \<open>
  How long a cached Session Record stays readable after the access assertion it is keyed
  by has expired (0 when it does not outlive it, or is absent).
\<close>

definition outlives_by :: "world \<Rightarrow> jwt \<Rightarrow> nat" where
  "outlives_by w t =
     (case sessions (rds w) t of
        None \<Rightarrow> 0
      | Some e \<Rightarrow> (case e_expires e of None \<Rightarrow> 0 | Some x \<Rightarrow> x - jwt_exp t))"

section \<open>The login handlers\<close>

record login_request =
  body_email :: "string option"
  body_password :: "string option"
  req_ip :: string
  req_user_agent :: "string option"

datatype login_response = Json nat string | LoginOk jwt jwt user_row | NextError

text \<open>\<^verbatim>\<open>String.prototype.toLowerCase\<close> on ASCII letters.\<close>

definition lower_char :: "char \<Rightarrow> char" where
  "lower_char c =
     (if 65 \<le> (of_char c :: nat) \<and> (of_char c :: nat) \<le> 90
      then char_of ((of_char c :: nat) + 32) else c)"

definition toLowerCase :: "string \<Rightarrow> string" where
  "toLowerCase s = map lower_char s"

definition user_profile :: "user_row \<Rightarrow> profile" where
  "user_profile u =
     \<lparr>p_email = u_email u, p_firstName = u_first_name u, p_lastName = u_last_name u,
      p_mfaEnabled = u_mfa_enabled u\<rparr>"

text \<open>
  \<^verbatim>\<open>POST /api/auth/login\<close> (the authentication router), after its rate limiter has
  let the request through. \<open>bcrypt_compare\<close> stands for \<^verbatim>\<open>bcrypt.compare\<close>. An absent or
  empty field is falsy.
\<close>

definition login ::
  "(string \<Rightarrow> string \<Rightarrow> bool) \<Rightarrow> seconds \<Rightarrow> login_request \<Rightarrow> world \<Rightarrow> login_response \<times> world" where
  "login bcrypt_compare now req w =
     (case (body_email req, body_password req) of
        (Some email, Some password) \<Rightarrow>
          if email = [] \<or> password = []
          then (Json 400 ''Email and password are required'', w)
          else
            (case select_users (\<lambda>u. u_email u = toLowerCase email) (pg w) of
               Inl err \<Rightarrow> (Json 500 ''Internal server error'', w)
             | Inr [] \<Rightarrow>
                 (Json 401 ''Invalid credentials'',
                  snd (createAuditLog now
                         \<lparr>log_action = ''FAILED_LOGIN'', log_userId = None,
                          log_details = [(''email'', email), (''reason'', ''User not found''),
                                         (''ip'', req_ip req)],
                          log_ip = None\<rparr> w))
             | Inr (user # rest) \<Rightarrow>
                 if \<not> u_is_active user \<or> \<not> u_is_approved user
                 then
                   (Json 401
                      (if \<not> u_is_active user
                       then ''Your account has been deactivated. Please contact an administrator.''
                       else ''Your account is pending approval. Please contact an administrator.''),
                    snd (createAuditLog now
                           \<lparr>log_action = ''FAILED_LOGIN'', log_userId = Some (u_id user),
                            log_details =
                              [(''reason'', if \<not> u_is_active user then ''User inactive''
                                            else ''User not approved''),
                               (''ip'', req_ip req)],
                            log_ip = None\<rparr> w))
                 else if \<not> bcrypt_compare password (u_password user)
                 then
                   (Json 401 ''Invalid credentials'',
                    snd (createAuditLog now
                           \<lparr>log_action = ''FAILED_LOGIN'', log_userId = Some (u_id user),
                            log_details = [(''reason'', ''Invalid password''), (''ip'', req_ip req)],
                            log_ip = None\<rparr> w))
                 else
                   (case createSession now (u_id user) (u_role user)
                           (Some (user_profile user)) w of
                      (Inl err, w1) \<Rightarrow> (Json 500 ''Internal server error'', w1)
                    | (Inr (accessToken, refreshToken), w1) \<Rightarrow>
                        (case insert_refresh_token
                                \<lparr>rt_user_id = u_id user, rt_token = refreshToken,
                                 rt_ip_address = None, rt_user_agent = None,
                                 rt_expires_at = now + 7 * 24 * 60 * 60\<rparr> (pg w1) of
                           Inl err \<Rightarrow> (Json 500 ''Internal server error'', w1)
                         | Inr pg2 \<Rightarrow>
                             (LoginOk accessToken refreshToken user,
                              snd (createAuditLog now
                                     \<lparr>log_action = ''LOGIN'', log_userId = Some (u_id user),
                                      log_details = [(''ip'', req_ip req)], log_ip = None\<rparr>
                                     (w1\<lparr>pg := pg2\<rparr>))))))
      | _ \<Rightarrow> (Json 400 ''Email and password are required'', w))"

text \<open>
  \<^verbatim>\<open>POST /api/manager/auth/login\<close> (\<^verbatim>\<open>routes/manager-auth.js\<close>). Its
  \<^verbatim>\<open>catch\<close> hands the error to \<^verbatim>\<open>next\<close>.
\<close>

definition user_agent_details :: "string option \<Rightarrow> details" where
  "user_agent_details ua = (case ua of None \<Rightarrow> [] | Some s \<Rightarrow> [(''userAgent'', s)])"

definition managerLogin ::
  "(string \<Rightarrow> string \<Rightarrow> bool) \<Rightarrow> seconds \<Rightarrow> login_request \<Rightarrow> world \<Rightarrow> login_response \<times> world" where
  "managerLogin bcrypt_compare now req w =
     (case (body_email req, body_password req) of
        (Some email, Some password) \<Rightarrow>
          if email = [] \<or> password = []
          then (Json 400 ''Email and password are required'', w)
          else
            (case select_users (\<lambda>u. u_email u = email \<and> u_role u = ''manager'') (pg w) of
               Inl err \<Rightarrow> (NextError, w)
             | Inr [] \<Rightarrow> (Json 401 ''Invalid email or password'', w)
             | Inr (user # rest) \<Rightarrow>
                 if \<not> u_is_active user
                 then (Json 401 ''Account is inactive. Please contact an administrator.'', w)
                 else if \<not> u_is_approved user
                 then (Json 401 ''Account is pending approval. Please wait for admin approval.'', w)
                 else if \<not> bcrypt_compare password (u_password user)
                 then
                   (Json 401 ''Invalid email or password'',
                    snd (createAuditLog now
                           \<lparr>log_action = ''MANAGER_LOGIN_FAILED'', log_userId = Some (u_id user),
                            log_details = [(''reason'', ''Invalid password''), (''ip'', req_ip req)],
                            log_ip = None\<rparr> w))
                 else
                   (let accessToken =
                          jwt_sign (u_id user) (Some ''manager'') JWT_SECRET access_ttl now;
                        refreshToken =
                          jwt_sign (u_id user) (Some ''manager'') JWT_REFRESH_SECRET refresh_ttl now
                    in case insert_refresh_token
                              \<lparr>rt_user_id = u_id user, rt_token = refreshToken,
                               rt_ip_address = Some (req_ip req),
                               rt_user_agent = req_user_agent req,
                               rt_expires_at = now + 7 * 24 * 60 * 60\<rparr> (pg w) of
                         Inl err \<Rightarrow> (NextError, w)
                       | Inr pg1 \<Rightarrow>
                           (case redis_set_session now accessToken
                                   \<lparr>s_userId = u_id user, s_role = Some ''manager'',
                                    s_extra = None\<rparr> (ExArgs 900) (rds w) of
                              (Inl err, r1) \<Rightarrow> (NextError, w\<lparr>pg := pg1, rds := r1\<rparr>)
                            | (Inr u, r1) \<Rightarrow>
                                (LoginOk accessToken refreshToken user,
                                 snd (createAuditLog now
                                        \<lparr>log_action = ''MANAGER_LOGIN_SUCCESS'',
                                         log_userId = Some (u_id user),
                                         log_details = (''ip'', req_ip req) #
                                                       user_agent_details (req_user_agent req),
                                         log_ip = None\<rparr>
                                        (w\<lparr>pg := pg1, rds := r1\<rparr>))))))
      | _ \<Rightarrow> (Json 400 ''Email and password are required'', w))"

section \<open>Sample data\<close>

definition db_empty :: db where
  "db_empty = \<lparr>audit_logs = [], audit_seq = 0, users = [], refresh_tokens = [], db_failing = False\<rparr>"

definition world_empty :: world where
  "world_empty = \<lparr>pg = db_empty, rds = redis_empty\<rparr>"

definition alice :: user_row where
  "alice =
     \<lparr>u_id = 1, u_email = ''alice@example.com'', u_password = ''secret'',
      u_first_name = ''Alice'', u_last_name = ''A'', u_role = ''manager'',
      u_mfa_enabled = False, u_is_active = True, u_is_approved = True\<rparr>"

definition world_alice :: world where
  "world_alice = world_empty\<lparr>pg := db_empty\<lparr>users := [alice]\<rparr>\<rparr>"

definition client :: string where
  "client = ''10.0.0.1''"

definition security_alert :: audit_args where
  "security_alert =
     \<lparr>log_action = ''SECURITY_ALERT'', log_userId = None, log_details = [], log_ip = None\<rparr>"

definition alert_event :: notification where
  "alert_event =
     \<lparr>n_id = 1, n_action = ''SECURITY_ALERT'', n_userId = None, n_details = [], n_timestamp = 0\<rparr>"

text \<open>The store with one command out of order.\<close>

definition world_without :: "redis_cmd \<Rightarrow> world" where
  "world_without c = world_empty\<lparr>rds := redis_empty\<lparr>failing := (\<lambda>x. x = c)\<rparr>\<rparr>"

text \<open>A refresh assertion signed for user 1 at instant 0.\<close>

definition refresh0 :: jwt where
  "refresh0 = jwt_sign 1 None JWT_REFRESH_SECRET refresh_ttl 0"

text \<open>
  The assertions the manager login signs for user 1 at instant 0, the world after that
  login and a logout (\<^verbatim>\<open>invalidateSession\<close>), and a socket presenting the access
  assertion.
\<close>

definition manager_access0 :: jwt where
  "manager_access0 = jwt_sign 1 (Some ''manager'') JWT_SECRET access_ttl 0"

definition manager_refresh0 :: jwt where
  "manager_refresh0 = jwt_sign 1 (Some ''manager'') JWT_REFRESH_SECRET refresh_ttl 0"

definition socket0 :: socket where
  "socket0 =
     \<lparr>handshake_token = Some manager_access0, socket_id = ''s1'', handshake_address = client\<rparr>"

text \<open>
  A store in which the login counter of the client is present with the value \<open>n\<close> and
  expires at instant 310. The limiter never creates a counter itself (its \<^verbatim>\<open>SET\<close> is
  rejected); such an entry comes from another writer to the shared store.
\<close>

definition login_counter :: "int \<Rightarrow> redis" where
  "login_counter n = redis_empty\<lparr>counters := [''rl:login:10.0.0.1'' \<mapsto> Entry n (Some 310)]\<rparr>"

text \<open>A refresh row that is still in the ledger, and a full ring buffer.\<close>

definition world_ledger :: world where
  "world_ledger =
     world_alice\<lparr>pg := (pg world_alice)\<lparr>refresh_tokens :=
       [\<lparr>rt_user_id = 1, rt_token = refresh0, rt_ip_address = None, rt_user_agent = None,
         rt_expires_at = refresh_ttl\<rparr>]\<rparr>\<rparr>"

definition world_full :: "redis_cmd \<Rightarrow> world" where
  "world_full c =
     world_empty\<lparr>rds := redis_empty\<lparr>lists := (\<lambda>k. replicate 100 alert_event),
                                      failing := (\<lambda>x. x = c)\<rparr>\<rparr>"

definition alice_data :: user_data where
  "alice_data =
     \<lparr>ud_role = ''manager'', ud_email = ''alice@example.com'', ud_firstName = ''Alice'',
      ud_lastName = ''A'', ud_mfaEnabled = False\<rparr>"

definition bob :: user_row where
  "bob =
     \<lparr>u_id = 2, u_email = ''bob@example.com'', u_password = ''hunter2'',
      u_first_name = ''Bob'', u_last_name = ''B'', u_role = ''user'',
      u_mfa_enabled = False, u_is_active = False, u_is_approved = True\<rparr>"

definition world_users :: world where
  "world_users = world_empty\<lparr>pg := db_empty\<lparr>users := [alice, bob]\<rparr>\<rparr>"

definition login_as :: "string \<Rightarrow> string \<Rightarrow> login_request" where
  "login_as email password =
     \<lparr>body_email = Some email, body_password = Some password, req_ip = client,
      req_user_agent = None\<rparr>"

definition world_logged_out :: world where
  "world_logged_out =
     snd (invalidateSession manager_access0
            (snd (managerLogin (=) 0 (login_as ''alice@example.com'' ''secret'') world_alice)))"

section \<open>Facts about the store and the sample data\<close>

lemmas redis_ops =
  redis_get_counter_def redis_set_counter_def redis_incr_def issue_def lookup_def live_def

lemmas list_ops = redis_lpush_def redis_ltrim0_def redis_publish_def issue_def

lemmas session_ops =
  redis_get_session_def redis_set_session_def redis_del_session_def issue_def lookup_def live_def

lemmas limiter_samples =
  loginRateLimiter_def redis_empty_def ceil_seconds_def client_def login_counter_def

lemmas world_defs =
  world_without_def world_full_def world_empty_def db_empty_def redis_empty_def
  security_alert_def alert_event_def world_alice_def world_users_def alice_def bob_def client_def

lemma login_key: "keyPrefix loginRateLimiter @ client = ''rl:login:10.0.0.1''"
  by (simp add: loginRateLimiter_def client_def)

lemma set_object_rejected: "set_expiry (ExObject n) = None"
  by (simp add: set_expiry_def)

section \<open>The rate limiter: what one invocation does\<close>

lemma createRateLimiter_phases:
  "createRateLimiter opts now ip r =
     (case limiter_read opts now ip r of
        (ReadFailed, r1) \<Rightarrow> (Next, r1)
      | (Denied, r1) \<Rightarrow> (Status429 (message opts) (ceil_seconds (windowMs opts)), r1)
      | (Proceed c, r1) \<Rightarrow> (Next, limiter_write opts now ip c r1))"
  by (auto simp: createRateLimiter_def limiter_read_def limiter_write_def Let_def
                 redis_get_counter_def
           split: option.splits prod.splits sum.splits)

text \<open>
  The limiter never creates a counter: on a key with no live value it lets the request
  through and leaves the counters as they were.
\<close>

lemma limiter_never_creates:
  assumes "lookup now (counters r) (keyPrefix opts @ ip) = None"
  shows "fst (createRateLimiter opts now ip r) = Next \<and>
         counters (snd (createRateLimiter opts now ip r)) = counters r"
  using assms
  by (simp add: createRateLimiter_def redis_ops set_object_rejected Let_def)

text \<open>
  Two requests of one client that both read a counter standing at 4 before either writes
  it: both are let through, and the stored count ends at 6 with a maximum of 5.
\<close>

lemma limiter_race:
  "fst (limiter_read loginRateLimiter 50 client (login_counter 4)) = Proceed (Some 4) \<and>
   fst (limiter_read loginRateLimiter 50 client
          (snd (limiter_read loginRateLimiter 50 client (login_counter 4)))) =
     Proceed (Some 4) \<and>
   stored_count
     (limiter_write loginRateLimiter 50 client (Some 4)
        (limiter_write loginRateLimiter 50 client (Some 4)
           (snd (limiter_read loginRateLimiter 50 client
                  (snd (limiter_read loginRateLimiter 50 client (login_counter 4)))))))
     ''rl:login:10.0.0.1'' = Some 6"
  by (simp add: limiter_read_def limiter_write_def stored_count_def limiter_samples redis_ops)

text \<open>
  C3, as the code has it. One invocation of the limiter on a key is not a single store
  command. It always sends a \<^verbatim>\<open>GET\<close> of the counter first and then, unless that read
  failed or the value read has reached the maximum, one separate write chosen from the
  value read: \<^verbatim>\<open>INCR\<close> when a value was present, a \<^verbatim>\<open>SET\<close> of the key when none
  was. The \<^verbatim>\<open>INCR\<close> adds one to the count and keeps its expiry; the \<^verbatim>\<open>SET\<close>, as the
  code calls the client, is rejected by the store, so the counters are then left as they
  were.
\<close>

theorem limiter_commands:
  "commands_issued opts now ip r =
     (if failing r GET then [(GET, CounterKey (keyPrefix opts @ ip), False)]
      else (case lookup now (counters r) (keyPrefix opts @ ip) of
              None \<Rightarrow> [(GET, CounterKey (keyPrefix opts @ ip), True),
                        (SET, CounterKey (keyPrefix opts @ ip), False)]
            | Some n \<Rightarrow>
                if n \<ge> max_requests opts then [(GET, CounterKey (keyPrefix opts @ ip), True)]
                else [(GET, CounterKey (keyPrefix opts @ ip), True),
                      (INCR, CounterKey (keyPrefix opts @ ip), \<not> failing r INCR)])) \<and>
   counters (snd (createRateLimiter opts now ip r)) =
     (case counters r (keyPrefix opts @ ip) of
        None \<Rightarrow> counters r
      | Some e \<Rightarrow>
          if \<not> failing r GET \<and> live now e \<and> e_val e < max_requests opts \<and> \<not> failing r INCR
          then (counters r)(keyPrefix opts @ ip \<mapsto> Entry (e_val e + 1) (e_expires e))
          else counters r)"
proof (cases "failing r GET")
  case True
  then show ?thesis
    by (simp add: commands_issued_def createRateLimiter_def redis_ops Let_def
             split: option.splits)
next
  case False
  then show ?thesis
    by (auto simp: commands_issued_def createRateLimiter_def redis_ops set_object_rejected
                   Let_def
             split: option.splits)
qed

text \<open>
  The first login request of a client on an empty store sends two commands, a read and
  then a write, not one.
\<close>

theorem limiter_read_then_write_counterexample:
  "length (commands_issued loginRateLimiter 0 client redis_empty) \<noteq> 1 \<and>
   commands_issued loginRateLimiter 0 client redis_empty =
     [(GET, CounterKey ''rl:login:10.0.0.1'', True),
      (SET, CounterKey ''rl:login:10.0.0.1'', False)]"
  by (simp add: commands_issued_def createRateLimiter_def redis_ops set_object_rejected
                Let_def limiter_samples)

text \<open>
  C6. If any command the limiter sends to the counter store raises, the middleware calls
  \<^verbatim>\<open>next()\<close>: the request proceeds.
\<close>

theorem limiter_fails_open:
  assumes "(c, k, False) \<in> set (commands_issued opts now ip r)"
  shows "fst (createRateLimiter opts now ip r) = Next"
  using assms
  by (auto simp: commands_issued_def createRateLimiter_def redis_ops Let_def
           split: option.splits if_splits)

theorem limiter_fails_open_witness:
  "(GET, CounterKey ''rl:login:10.0.0.1'', False)
     \<in> set (commands_issued loginRateLimiter 0 client (redis_empty\<lparr>failing := (\<lambda>c. True)\<rparr>)) \<and>
   fst (createRateLimiter loginRateLimiter 0 client (redis_empty\<lparr>failing := (\<lambda>c. True)\<rparr>)) = Next"
proof -
  have h: "(GET, CounterKey ''rl:login:10.0.0.1'', False)
     \<in> set (commands_issued loginRateLimiter 0 client (redis_empty\<lparr>failing := (\<lambda>c. True)\<rparr>))"
    by (simp add: commands_issued_def createRateLimiter_def redis_ops Let_def limiter_samples)
  from limiter_fails_open [OF h] h show ?thesis by simp
qed

text \<open>
  A denial at instant 300 on a store whose login counter for the client stands at 5 and
  expires at 310.
\<close>

lemma denied_at_five:
  "fst (createRateLimiter loginRateLimiter 300 client (login_counter 5)) =
     Status429 ''Too many login attempts, please try again after 5 minutes'' 300"
  by (simp add: createRateLimiter_def redis_get_counter_def lookup_def live_def issue_def
                Let_def limiter_samples)

text \<open>
  C7, as the code has it. Whenever the limiter denies a request, the \<^verbatim>\<open>retryAfter\<close> it
  reports is the full window length in seconds, \<^verbatim>\<open>Math.ceil(windowMs / 1000)\<close>, and
  the message is the configured one.
\<close>

theorem retry_after_is_window:
  assumes "fst (createRateLimiter opts now ip r) = Status429 m ra"
  shows "ra = ceil_seconds (windowMs opts) \<and> m = message opts"
  using assms
  by (auto simp: createRateLimiter_def redis_ops Let_def split: option.splits if_splits)

theorem retry_after_is_window_witness:
  "fst (createRateLimiter loginRateLimiter 300 client (login_counter 5)) =
     Status429 ''Too many login attempts, please try again after 5 minutes'' 300 \<and>
   ceil_seconds (windowMs loginRateLimiter) = 300 \<and>
   message loginRateLimiter = ''Too many login attempts, please try again after 5 minutes''"
proof -
  from retry_after_is_window [OF denied_at_five] denied_at_five show ?thesis by simp
qed

text \<open>
  The login counter of the client stands at 5 and has 10 seconds left at instant 300; the
  denial says 300.
\<close>

theorem retry_after_not_remaining_ttl_counterexample:
  "fst (createRateLimiter loginRateLimiter 300 client (login_counter 5)) =
     Status429 ''Too many login attempts, please try again after 5 minutes'' 300 \<and>
   remaining_ttl 300 (login_counter 5) (keyPrefix loginRateLimiter @ client) = Some 10"
  by (simp add: createRateLimiter_def redis_get_counter_def lookup_def live_def issue_def
                Let_def remaining_ttl_def limiter_samples)

text \<open>
  C8, as the code has it. The named limiters of \<^verbatim>\<open>rateLimiter.js\<close> allow 5 login
  attempts per 5-minute window, 3 password-reset requests per 1-hour window and 60 API
  requests per 1-minute window; the 15-minute login window is that of the separate limiter
  of the manager login route.
\<close>

theorem named_limiters:
  "(windowMs loginRateLimiter, max_requests loginRateLimiter) = (5 * 60 * 1000, 5) \<and>
   (windowMs passwordResetRateLimiter, max_requests passwordResetRateLimiter) =
     (60 * 60 * 1000, 3) \<and>
   (windowMs apiRateLimiter, max_requests apiRateLimiter) = (60 * 1000, 60) \<and>
   (windowMs loginLimiter, max_requests loginLimiter) = (15 * 60 * 1000, 5)"
  by (simp add: loginRateLimiter_def passwordResetRateLimiter_def apiRateLimiter_def
                loginLimiter_def)

theorem named_limiters_counterexample:
  "\<not> (windowMs loginRateLimiter = 15 * 60 * 1000 \<and> max_requests loginRateLimiter = 5)"
  by (simp add: loginRateLimiter_def)

section \<open>The rate limiter: the stored count\<close>

lemma denied_frame:
  assumes "fst (createRateLimiter opts now ip r) = Status429 m ra"
  shows "counters (snd (createRateLimiter opts now ip r)) = counters r"
  using assms
  by (auto simp: createRateLimiter_def redis_ops Let_def split: option.splits if_splits)

lemma limiter_step_within:
  assumes "within_max (max_requests opts) r k"
  shows "within_max (max_requests opts) (snd (createRateLimiter opts now ip r)) k"
proof (cases "k = keyPrefix opts @ ip")
  case True
  with assms show ?thesis
    by (auto simp: createRateLimiter_def redis_ops set_object_rejected Let_def within_max_def
             split: option.splits if_splits)
next
  case False
  with assms show ?thesis
    by (auto simp: createRateLimiter_def redis_ops set_object_rejected Let_def within_max_def
             split: option.splits if_splits)
qed

lemma run_requests_within:
  "within_max (max_requests opts) r k \<Longrightarrow>
   within_max (max_requests opts) (run_requests opts reqs r) k"
proof (induction reqs arbitrary: r)
  case Nil
  then show ?case by simp
next
  case (Cons q qs)
  obtain now ip where q: "q = (now, ip)" by (cases q)
  have "within_max (max_requests opts) (snd (createRateLimiter opts now ip r)) k"
    using Cons.prems by (rule limiter_step_within)
  then show ?case using Cons.IH q by simp
qed

text \<open>
  C10. A denial leaves the stored counter and its expiry as they were. Consequently, when
  requests are served one after the other, a key that holds no count above the configured
  maximum to begin with (an absent key holds none) holds none after any number of
  requests.
\<close>

theorem denial_keeps_counter_and_count_bounded:
  assumes "within_max (max_requests opts) r k"
  shows "(\<forall>m ra. fst (createRateLimiter opts now ip r) = Status429 m ra \<longrightarrow>
                 counters (snd (createRateLimiter opts now ip r)) = counters r) \<and>
         within_max (max_requests opts) (run_requests opts reqs r) k"
  using denied_frame run_requests_within [OF assms] by blast

text \<open>
  The login counter of the client stands at 4: the next request raises it to 5, the two
  after it are denied and leave it at 5. From the empty store, three requests leave the
  key absent.
\<close>

theorem denial_keeps_counter_and_count_bounded_witness:
  "within_max (max_requests loginRateLimiter) (login_counter 4) ''rl:login:10.0.0.1'' \<and>
   stored_count (run_requests loginRateLimiter [(50, client), (60, client), (70, client)]
                   (login_counter 4)) ''rl:login:10.0.0.1'' = Some 5 \<and>
   within_max (max_requests loginRateLimiter)
     (run_requests loginRateLimiter [(50, client), (60, client), (70, client)]
        (login_counter 4)) ''rl:login:10.0.0.1'' \<and>
   within_max (max_requests loginRateLimiter) redis_empty ''rl:login:10.0.0.1'' \<and>
   stored_count (run_requests loginRateLimiter [(50, client), (60, client), (70, client)]
                   redis_empty) ''rl:login:10.0.0.1'' = None \<and>
   fst (createRateLimiter loginRateLimiter 300 client (login_counter 5)) =
     Status429 ''Too many login attempts, please try again after 5 minutes'' 300 \<and>
   counters (snd (createRateLimiter loginRateLimiter 300 client (login_counter 5))) =
     counters (login_counter 5)"
proof -
  have h4: "within_max (max_requests loginRateLimiter) (login_counter 4) ''rl:login:10.0.0.1''"
    by (simp add: within_max_def limiter_samples)
  have h5: "within_max (max_requests loginRateLimiter) (login_counter 5) ''rl:login:10.0.0.1''"
    by (simp add: within_max_def limiter_samples)
  have h0: "within_max (max_requests loginRateLimiter) redis_empty ''rl:login:10.0.0.1''"
    by (simp add: within_max_def limiter_samples)
  have c4: "stored_count (run_requests loginRateLimiter [(50, client), (60, client), (70, client)]
                   (login_counter 4)) ''rl:login:10.0.0.1'' = Some 5"
    by (simp add: stored_count_def createRateLimiter_def redis_ops Let_def limiter_samples)
  have c0: "stored_count (run_requests loginRateLimiter [(50, client), (60, client), (70, client)]
                   redis_empty) ''rl:login:10.0.0.1'' = None"
    by (simp add: stored_count_def createRateLimiter_def redis_ops set_object_rejected
                  Let_def limiter_samples)
  from denial_keeps_counter_and_count_bounded
         [OF h4, of 50 client "[(50, client), (60, client), (70, client)]"]
       denial_keeps_counter_and_count_bounded [OF h5, of 300 client "[]"]
       denied_at_five h4 h0 c4 c0
  show ?thesis by simp
qed

section \<open>The audit logger: its result and the ring buffer\<close>

lemma not_significant_no_redis:
  assumes "log_action a \<notin> set significantActions"
  shows "rds (snd (createAuditLog now a w)) = rds w"
  using assms by (simp add: createAuditLog_def insert_audit_log_def Let_def)

lemma audit_actions:
  "map a_action (audit_logs (pg (snd (createAuditLog now a w)))) =
     (if db_failing (pg w) then map a_action (audit_logs (pg w))
      else map a_action (audit_logs (pg w)) @ [log_action a])"
  by (simp add: createAuditLog_def insert_audit_log_def list_ops Let_def)

text \<open>
  C4, as the code has it. \<^verbatim>\<open>createAuditLog\<close> never throws: it always resolves to an
  id or to null. It resolves to null when the durable insert fails and also when, for a
  significant action, the push, the trim or the publish fails after the insert has
  succeeded; otherwise it resolves to the new row's id. The row is in the durable log
  whenever the insert succeeded, whatever happens afterwards.
\<close>

theorem createAuditLog_result:
  "fst (createAuditLog now a w) =
     (if db_failing (pg w) then None
      else if log_action a \<in> set significantActions \<and>
              (failing (rds w) LPUSH \<or> failing (rds w) LTRIM \<or> failing (rds w) PUBLISH)
      then None
      else Some (Suc (audit_seq (pg w)))) \<and>
   audit_logs (pg (snd (createAuditLog now a w))) =
     (if db_failing (pg w) then audit_logs (pg w)
      else audit_logs (pg w) @
             [\<lparr>a_id = Suc (audit_seq (pg w)), a_action = log_action a,
               a_user_id = log_userId a, a_details = log_details a,
               a_ip_address = log_ip a\<rparr>])"
proof (cases "db_failing (pg w)")
  case True
  then show ?thesis
    by (simp add: createAuditLog_def insert_audit_log_def)
next
  case False
  show ?thesis
  proof (cases "log_action a \<in> set significantActions")
    case True
    with \<open>\<not> db_failing (pg w)\<close> show ?thesis
      by (simp add: createAuditLog_def insert_audit_log_def list_ops Let_def)
  next
    case False
    with \<open>\<not> db_failing (pg w)\<close> show ?thesis
      by (simp add: createAuditLog_def insert_audit_log_def Let_def)
  qed
qed

text \<open>
  A security alert is recorded while the store refuses \<^verbatim>\<open>LPUSH\<close> (or
  \<^verbatim>\<open>PUBLISH\<close>): the insert succeeds, row 1 is in the durable log, and the call
  resolves to null, not to 1.
\<close>

theorem createAuditLog_null_after_insert_counterexample:
  "db_failing (pg (world_without LPUSH)) = False \<and>
   fst (createAuditLog 0 security_alert (world_without LPUSH)) = None \<and>
   map a_id (audit_logs (pg (snd (createAuditLog 0 security_alert (world_without LPUSH)))))
     = [1] \<and>
   fst (createAuditLog 0 security_alert (world_without PUBLISH)) = None \<and>
   map a_id (audit_logs (pg (snd (createAuditLog 0 security_alert (world_without PUBLISH)))))
     = [1]"
  by (simp add: createAuditLog_def insert_audit_log_def list_ops Let_def world_defs
                significantActions_def)

text \<open>
  C9, as the code has it. For a significant action whose durable insert succeeds and whose
  \<^verbatim>\<open>LPUSH\<close> and \<^verbatim>\<open>LTRIM\<close> succeed, whatever the buffer held before, the buffer
  afterwards is the new event followed by the first 99 entries it held: one new entry, at
  the head, and at most 100 entries.
\<close>

theorem significant_event_pushed:
  assumes "log_action a \<in> set significantActions"
    and "\<not> db_failing (pg w)"
    and "\<not> failing (rds w) LPUSH" and "\<not> failing (rds w) LTRIM"
  shows "ring_buffer (snd (createAuditLog now a w)) =
           \<lparr>n_id = Suc (audit_seq (pg w)), n_action = log_action a, n_userId = log_userId a,
            n_details = log_details a, n_timestamp = now\<rparr> # take 99 (ring_buffer w) \<and>
         length (ring_buffer (snd (createAuditLog now a w))) \<le> 100"
  using assms
  by (simp add: createAuditLog_def insert_audit_log_def list_ops Let_def ring_buffer_def)

theorem significant_event_pushed_witness:
  "log_action security_alert \<in> set significantActions \<and>
   ring_buffer (world_full GET) = replicate 100 alert_event \<and>
   ring_buffer (snd (createAuditLog 0 security_alert (world_full GET))) =
     alert_event # replicate 99 alert_event \<and>
   length (ring_buffer (snd (createAuditLog 0 security_alert (world_full GET)))) \<le> 100"
proof -
  have h1: "log_action security_alert \<in> set significantActions"
    by (simp add: security_alert_def significantActions_def)
  have h2: "\<not> db_failing (pg (world_full GET))"
    by (simp add: world_defs)
  have h3: "\<not> failing (rds (world_full GET)) LPUSH" "\<not> failing (rds (world_full GET)) LTRIM"
    by (simp_all add: world_defs)
  have rb: "ring_buffer (world_full GET) = replicate 100 alert_event"
    by (simp add: ring_buffer_def world_defs)
  have a: "audit_seq (pg (world_full GET)) = 0"
    by (simp add: world_defs)
  from significant_event_pushed [OF h1 h2 h3, of 0] h1 rb show ?thesis
    by (simp add: a security_alert_def alert_event_def)
qed

text \<open>
  A security alert whose insert succeeds while the store refuses \<^verbatim>\<open>LPUSH\<close> leaves the
  buffer empty; one recorded on a full buffer while the store refuses \<^verbatim>\<open>LTRIM\<close> leaves
  101 entries in it.
\<close>

theorem ring_buffer_push_failure_counterexample:
  "log_action security_alert \<in> set significantActions \<and>
   map a_id (audit_logs (pg (snd (createAuditLog 0 security_alert (world_without LPUSH)))))
     = [1] \<and>
   ring_buffer (snd (createAuditLog 0 security_alert (world_without LPUSH))) = [] \<and>
   map a_id (audit_logs (pg (snd (createAuditLog 0 security_alert (world_full LTRIM)))))
     = [1] \<and>
   length (ring_buffer (snd (createAuditLog 0 security_alert (world_full LTRIM)))) = 101"
  by (simp add: createAuditLog_def insert_audit_log_def list_ops Let_def world_defs
                significantActions_def ring_buffer_def)

section \<open>Sessions\<close>

text \<open>
  C5. A refresh assertion whose expiry lies in the past makes \<^verbatim>\<open>refreshSession\<close>
  throw the invalid-refresh-token error and change nothing (no new assertion, no Session
  Record), whatever the ledger holds.
\<close>

theorem refreshSession_expired:
  assumes "jwt_exp refreshToken < now"
  shows "refreshSession now refreshToken userData w = (Inl InvalidRefreshToken, w)"
  using assms by (simp add: refreshSession_def jwt_verify_def)

theorem refreshSession_expired_witness:
  "jwt_exp refresh0 < 604801 \<and>
   map rt_token (refresh_tokens (pg world_ledger)) = [refresh0] \<and>
   refreshSession 604801 refresh0 alice_data world_ledger =
     (Inl InvalidRefreshToken, world_ledger)"
proof -
  have h: "jwt_exp refresh0 < 604801"
    by (simp add: refresh0_def jwt_sign_def refresh_ttl_def)
  have l: "map rt_token (refresh_tokens (pg world_ledger)) = [refresh0]"
    by (simp add: world_ledger_def)
  from refreshSession_expired [OF h] h l show ?thesis by simp
qed

text \<open>
  As the code calls the client, the \<^verbatim>\<open>SET\<close> of \<^verbatim>\<open>createSession\<close> is rejected:
  it always throws and caches nothing. The manager login signs and caches on its own, and
  there the Session Record expires with the access assertion.
\<close>

lemma createSession_throws:
  "fst (createSession now uid rl extra w) = Inl (ReplyError SET) \<and>
   sessions (rds (snd (createSession now uid rl extra w))) = sessions (rds w)"
  by (simp add: createSession_def redis_set_session_def set_expiry_def issue_def Let_def)

lemma set_args_900:
  "redis_set_session now t v (ExArgs 900) r =
     (if failing r SET then (Inl (ReplyError SET), issue SET (SessionKey t) False r)
      else (Inr (), issue SET (SessionKey t) True
              (r\<lparr>sessions := (sessions r)(t \<mapsto> Entry v (Some (now + 900)))\<rparr>)))"
  by (simp add: redis_set_session_def set_expiry_def)

lemma managerLogin_ttl_matches:
  assumes "fst (managerLogin bcrypt_compare now req w) = LoginOk accessToken refreshToken user"
  shows "map_option e_expires
           (sessions (rds (snd (managerLogin bcrypt_compare now req w))) accessToken)
           = Some (Some (jwt_exp accessToken))"
proof -
  from assms obtain email password u rest pg1 where
    u: "select_users (\<lambda>u. u_email u = email \<and> u_role u = ''manager'') (pg w) = Inr (u # rest)"
    and ok: "\<not> failing (rds w) SET"
    and at: "accessToken = jwt_sign (u_id u) (Some ''manager'') JWT_SECRET access_ttl now"
    and res: "snd (managerLogin bcrypt_compare now req w) =
       snd (createAuditLog now
              \<lparr>log_action = ''MANAGER_LOGIN_SUCCESS'', log_userId = Some (u_id u),
               log_details = (''ip'', req_ip req) # user_agent_details (req_user_agent req),
               log_ip = None\<rparr>
              (w\<lparr>pg := pg1,
                 rds := issue SET (SessionKey accessToken) True
                   ((rds w)\<lparr>sessions := (sessions (rds w))(accessToken \<mapsto>
                      Entry \<lparr>s_userId = u_id u, s_role = Some ''manager'', s_extra = None\<rparr>
                        (Some (now + 900)))\<rparr>)\<rparr>))"
    by (simp add: managerLogin_def set_args_900 Let_def
             split: option.split_asm list.split_asm if_split_asm sum.split_asm prod.split_asm)
  show ?thesis
    by (simp add: res at not_significant_no_redis significantActions_def issue_def
                  jwt_sign_def access_ttl_def)
qed

text \<open>
  C2, where the code departs from it. When the socket handshake is given an access
  assertion that verifies and has no cached record, it accepts it and writes a Session
  Record that expires 900 seconds after the handshake, whatever is left of the assertion.
  At any instant from the assertion's expiry up to that later one the assertion itself no
  longer verifies, and \<^verbatim>\<open>validateSession\<close> still answers with the cached record.
\<close>

theorem socket_recache_outlives_assertion:
  assumes "handshake_token sock = Some token"
    and "lookup now (sessions (rds w)) token = None"
    and "jwt_verify token JWT_SECRET now = Inr decoded"
    and "\<not> failing (rds w) GET" and "\<not> failing (rds w) SET"
    and "jwt_exp token \<le> later" and "later < now + 900"
  shows "fst (socketAuthMiddleware now sock w) =
           Accept \<lparr>su_id = jwt_userId token, su_role = jwt_role token\<rparr> \<and>
         map_option e_expires (sessions (rds (snd (socketAuthMiddleware now sock w))) token)
           = Some (Some (now + 900)) \<and>
         outlives_by (snd (socketAuthMiddleware now sock w)) token = now + 900 - jwt_exp token \<and>
         jwt_verify token JWT_SECRET later = Inl TokenExpiredError \<and>
         fst (validateSession later token (snd (socketAuthMiddleware now sock w))) =
           Some \<lparr>s_userId = jwt_userId token, s_role = jwt_role token, s_extra = None\<rparr>"
proof -
  from assms(3) have d: "decoded = token" and k: "jwt_key token = JWT_SECRET"
    by (auto simp: jwt_verify_def split: if_splits)
  have r: "rds (snd (socketAuthMiddleware now sock w)) =
             issue SET (SessionKey token) True
               ((issue GET (SessionKey token) True (rds w))
                  \<lparr>sessions := (sessions (rds w))(token \<mapsto>
                     Entry \<lparr>s_userId = jwt_userId token, s_role = jwt_role token,
                            s_extra = None\<rparr> (Some (now + 900)))\<rparr>)"
    and acc: "fst (socketAuthMiddleware now sock w) =
           Accept \<lparr>su_id = jwt_userId token, su_role = jwt_role token\<rparr>"
    using assms(1-5) d
    by (simp_all add: socketAuthMiddleware_def redis_get_session_def redis_set_session_def
                      set_expiry_def issue_def not_significant_no_redis socket_connect_args_def
                      significantActions_def)
  have e: "map_option e_expires (sessions (rds (snd (socketAuthMiddleware now sock w))) token)
           = Some (Some (now + 900))"
    by (simp add: r issue_def)
  have o: "outlives_by (snd (socketAuthMiddleware now sock w)) token = now + 900 - jwt_exp token"
    by (simp add: outlives_by_def r issue_def)
  have v: "jwt_verify token JWT_SECRET later = Inl TokenExpiredError"
    using k assms(6) by (simp add: jwt_verify_def)
  have s: "fst (validateSession later token (snd (socketAuthMiddleware now sock w))) =
           Some \<lparr>s_userId = jwt_userId token, s_role = jwt_role token, s_extra = None\<rparr>"
    using assms(4,7)
    by (simp add: validateSession_def redis_get_session_def lookup_def live_def r issue_def)
  from acc e o v s show ?thesis by simp
qed

text \<open>
  The manager logs in at instant 0: the access assertion and its Session Record both
  expire at 900. After a logout the same assertion is presented to the handshake at 600:
  the record written then expires at 1500, and at 1000 the expired assertion is still
  answered from the cache.
\<close>

lemma manager_login_at_zero:
  "fst (managerLogin (=) 0 (login_as ''alice@example.com'' ''secret'') world_alice) =
     LoginOk manager_access0 manager_refresh0 alice"
  by (simp add: managerLogin_def login_as_def select_users_def insert_refresh_token_def
                redis_set_session_def set_expiry_def issue_def world_defs
                manager_access0_def manager_refresh0_def Let_def)

lemma world_logged_out_rds:
  "sessions (rds world_logged_out) manager_access0 = None \<and>
   failing (rds world_logged_out) c = False"
  by (simp add: world_logged_out_def invalidateSession_def redis_del_session_def
                managerLogin_def login_as_def select_users_def insert_refresh_token_def
                redis_set_session_def set_expiry_def issue_def world_defs
                not_significant_no_redis significantActions_def Let_def)

theorem socket_recache_outlives_assertion_witness:
  "fst (managerLogin (=) 0 (login_as ''alice@example.com'' ''secret'') world_alice) =
     LoginOk manager_access0 manager_refresh0 alice \<and>
   jwt_exp manager_access0 = 900 \<and>
   fst (socketAuthMiddleware 600 socket0 world_logged_out) =
     Accept \<lparr>su_id = 1, su_role = Some ''manager''\<rparr> \<and>
   map_option e_expires
     (sessions (rds (snd (socketAuthMiddleware 600 socket0 world_logged_out))) manager_access0)
     = Some (Some 1500) \<and>
   outlives_by (snd (socketAuthMiddleware 600 socket0 world_logged_out)) manager_access0 = 600 \<and>
   jwt_verify manager_access0 JWT_SECRET 1000 = Inl TokenExpiredError \<and>
   fst (validateSession 1000 manager_access0
          (snd (socketAuthMiddleware 600 socket0 world_logged_out))) =
     Some \<lparr>s_userId = 1, s_role = Some ''manager'', s_extra = None\<rparr>"
proof -
  have x: "jwt_exp manager_access0 = 900" "jwt_userId manager_access0 = 1"
      "jwt_role manager_access0 = Some ''manager''"
    by (simp_all add: manager_access0_def jwt_sign_def access_ttl_def)
  have h1: "handshake_token socket0 = Some manager_access0"
    by (simp add: socket0_def)
  have h2: "lookup 600 (sessions (rds world_logged_out)) manager_access0 = None"
    by (simp add: lookup_def world_logged_out_rds)
  have h3: "jwt_verify manager_access0 JWT_SECRET 600 = Inr manager_access0"
    by (simp add: jwt_verify_def manager_access0_def jwt_sign_def access_ttl_def)
  have h4: "\<not> failing (rds world_logged_out) GET" "\<not> failing (rds world_logged_out) SET"
    by (simp_all add: world_logged_out_rds)
  have h6: "jwt_exp manager_access0 \<le> 1000" "(1000::nat) < 600 + 900"
    by (simp_all add: x)
  from socket_recache_outlives_assertion [OF h1 h2 h3 h4 h6] manager_login_at_zero x
  show ?thesis by simp
qed

section \<open>Failed logins\<close>

text \<open>
  C1, where the code departs from it. Every 401 answer of \<^verbatim>\<open>POST /api/auth/login\<close>
  records an audit row whose action is \<^verbatim>\<open>FAILED_LOGIN\<close>. The significant set holds
  \<^verbatim>\<open>LOGIN_FAILED\<close>, not \<^verbatim>\<open>FAILED_LOGIN\<close>, so the ring buffer and the channel are
  left as they were.
\<close>

theorem failed_login_not_notified:
  assumes "fst (login bcrypt_compare now req w) = Json 401 m"
  shows "map a_action (audit_logs (pg (snd (login bcrypt_compare now req w)))) =
           map a_action (audit_logs (pg w)) @ [''FAILED_LOGIN''] \<and>
         ''FAILED_LOGIN'' \<notin> set significantActions \<and>
         ring_buffer (snd (login bcrypt_compare now req w)) = ring_buffer w \<and>
         channel (snd (login bcrypt_compare now req w)) = channel w"
  using assms
  by (auto simp: login_def select_users_def audit_actions not_significant_no_redis
                 ring_buffer_def channel_def significantActions_def
           split: option.splits list.splits if_splits sum.splits prod.splits)

theorem failed_login_not_notified_witness:
  "fst (login (=) 100 (login_as ''nobody@example.com'' ''x'') world_users) =
     Json 401 ''Invalid credentials'' \<and>
   fst (login (=) 100 (login_as ''bob@example.com'' ''hunter2'') world_users) =
     Json 401 ''Your account has been deactivated. Please contact an administrator.'' \<and>
   fst (login (=) 100 (login_as ''alice@example.com'' ''x'') world_users) =
     Json 401 ''Invalid credentials'' \<and>
   map a_action (audit_logs (pg (snd (login (=) 100 (login_as ''nobody@example.com'' ''x'')
                                        world_users)))) = [''FAILED_LOGIN''] \<and>
   map a_action (audit_logs (pg (snd (login (=) 100 (login_as ''bob@example.com'' ''hunter2'')
                                        world_users)))) = [''FAILED_LOGIN''] \<and>
   map a_action (audit_logs (pg (snd (login (=) 100 (login_as ''alice@example.com'' ''x'')
                                        world_users)))) = [''FAILED_LOGIN''] \<and>
   ring_buffer (snd (login (=) 100 (login_as ''nobody@example.com'' ''x'') world_users)) = [] \<and>
   channel (snd (login (=) 100 (login_as ''nobody@example.com'' ''x'') world_users)) = []"
proof -
  have h1: "fst (login (=) 100 (login_as ''nobody@example.com'' ''x'') world_users) =
      Json 401 ''Invalid credentials''"
    by (simp add: login_def login_as_def select_users_def world_defs toLowerCase_def
                  lower_char_def)
  have h2: "fst (login (=) 100 (login_as ''bob@example.com'' ''hunter2'') world_users) =
      Json 401 ''Your account has been deactivated. Please contact an administrator.''"
    by (simp add: login_def login_as_def select_users_def world_defs toLowerCase_def
                  lower_char_def)
  have h3: "fst (login (=) 100 (login_as ''alice@example.com'' ''x'') world_users) =
      Json 401 ''Invalid credentials''"
    by (simp add: login_def login_as_def select_users_def world_defs toLowerCase_def
                  lower_char_def)
  have e: "audit_logs (pg world_users) = []" "ring_buffer world_users = []"
      "channel world_users = []"
    by (simp_all add: world_defs ring_buffer_def channel_def)
  from failed_login_not_notified [OF h1] failed_login_not_notified [OF h2]
       failed_login_not_notified [OF h3] h1 h2 h3 e
  show ?thesis by simp
qed

text \<open>
  The manager login records a failed attempt only on a wrong password, under
  \<^verbatim>\<open>MANAGER_LOGIN_FAILED\<close>, which is not in the significant set either; an unknown,
  inactive or unapproved account is answered with no audit row at all.
\<close>

lemma failed_manager_login_not_notified:
  assumes "fst (managerLogin bcrypt_compare now req w) = Json 401 m"
  shows "ring_buffer (snd (managerLogin bcrypt_compare now req w)) = ring_buffer w \<and>
         channel (snd (managerLogin bcrypt_compare now req w)) = channel w \<and>
         map a_action (audit_logs (pg (snd (managerLogin bcrypt_compare now req w))))
           \<in> {map a_action (audit_logs (pg w)),
               map a_action (audit_logs (pg w)) @ [''MANAGER_LOGIN_FAILED'']}"
  using assms
  by (auto simp: managerLogin_def select_users_def audit_actions not_significant_no_redis
                 ring_buffer_def channel_def significantActions_def Let_def
           split: option.splits list.splits if_splits sum.splits prod.splits)

text \<open>Had the handler logged \<^verbatim>\<open>LOGIN_FAILED\<close>, the event would have reached the buffer.\<close>

lemma login_failed_would_notify:
  "ring_buffer (snd (createAuditLog 0
       \<lparr>log_action = ''LOGIN_FAILED'', log_userId = None, log_details = [], log_ip = None\<rparr>
       world_empty)) =
     [\<lparr>n_id = 1, n_action = ''LOGIN_FAILED'', n_userId = None, n_details = [],
       n_timestamp = 0\<rparr>]"
  by (simp add: createAuditLog_def insert_audit_log_def list_ops Let_def world_defs
                significantActions_def ring_buffer_def)

end
